theory Spec2Isabelle
  imports Complex_Main
begin

section \<open>The rate limit helper of \<^verbatim>\<open>timeout_helper.py\<close>\<close>

text \<open>
  The module holds one function:
  \<^verbatim>\<open>
  def rate_limit(max_requests_per_minute: int, last_request_time: float = 0) -> float:
      min_interval = 60.0 / max_requests_per_minute
      elapsed = time.time() - last_request_time

      if elapsed < min_interval:
          time.sleep(min_interval - elapsed)

      return time.time()
  \<close>
  It divides, reads the clock, subtracts, may sleep, and reads the clock again.

  Finite floats are modelled as exact \<open>real\<close> numbers of seconds: the rounding of
  double arithmetic, infinities and NaN are outside the model, so a statement about an
  exact duration or bound is a statement about the unrounded value. Everything else
  that Python does on these six lines is in the model: the two arguments may each be an
  \<open>int\<close> or a \<open>float\<close> (the annotations are not enforced, and the default
  \<open>last_request_time\<close> is the int \<open>0\<close>), an int that is too large for a float makes
  the arithmetic raise, a zero divisor makes the division raise, and \<open>time.sleep\<close>
  refuses durations that are negative or too long.
\<close>

subsection \<open>Numbers and exceptions\<close>

datatype pynum = PyInt int | PyFloat real

text \<open>
  The exceptions that can occur. \<open>ZeroDivisionError\<close> is raised by the division,
  \<open>OverflowError\<close> by the conversion of a large int to a float and by
  \<open>time.sleep\<close> on a duration of \<open>2^63\<close> nanoseconds or more, \<open>ValueError\<close> by
  \<open>time.sleep\<close> on a negative duration, \<open>OSError\<close> by \<open>time.sleep\<close> when the
  operating system refuses the deadline. \<open>InvalidArgument\<close> is the error kind the
  specification names; no statement of the source raises it.
\<close>

datatype error = ZeroDivisionError | OverflowError | ValueError | OSError | InvalidArgument

text \<open>
  Mixed arithmetic converts an int operand to a float first. The conversion rounds to
  the nearest double and raises \<open>OverflowError\<close> when the result would exceed the
  largest double \<open>2^1024 - 2^971\<close>, which is from magnitude \<open>2^1024 - 2^970\<close> on.
\<close>

definition float_limit :: int where
  "float_limit = 2 ^ 1024 - 2 ^ 970"

definition to_float :: "pynum \<Rightarrow> error + real" where
  "to_float x = (case x of
                   PyInt n \<Rightarrow> if float_limit \<le> \<bar>n\<bar> then Inl OverflowError
                              else Inr (real_of_int n)
                 | PyFloat r \<Rightarrow> Inr r)"

text \<open>The mathematical value of a number, and whether it converts to a float.\<close>

definition num_value :: "pynum \<Rightarrow> real" where
  "num_value x = (case x of PyInt n \<Rightarrow> real_of_int n | PyFloat r \<Rightarrow> r)"

definition float_ok :: "pynum \<Rightarrow> bool" where
  "float_ok x = (case x of PyInt n \<Rightarrow> \<bar>n\<bar> < float_limit | PyFloat r \<Rightarrow> True)"

subsection \<open>The environment: clock and sleep\<close>

text \<open>
  The two primitives of Python's \<open>time\<close> module act on a world that is passed
  explicitly. \<open>clock\<close> is the value \<open>time.time()\<close> would return now. \<open>lags\<close> is the
  change of the clock that happens by itself after each primitive call, one entry per
  call (the run time of the code between two primitives, the caller's work after the
  function returns, the amount by which a sleep overshoots, and, when negative, a wall
  clock that is set back); once the list is used up the clock changes no more by itself.
  \<open>slept\<close> logs the argument of every \<open>time.sleep\<close> call that did sleep, oldest
  first. \<open>sleep_limit\<close> is the bound of the platform on a sleep that CPython itself
  accepts (Linux refuses a deadline of \<open>2^63\<close> nanoseconds or more on its monotonic
  clock, so that the bound is about 9223372036 s less the uptime); it is a parameter of
  the model.
\<close>

record world =
  clock :: real
  lags :: "real list"
  slept :: "real list"
  sleep_limit :: real

definition elapse :: "world \<Rightarrow> world" where
  "elapse w = (case lags w of
                 [] \<Rightarrow> w
               | l # ls \<Rightarrow> w\<lparr>clock := clock w + l, lags := ls\<rparr>)"

definition time_time :: "world \<Rightarrow> real \<times> world" where
  "time_time w = (clock w, elapse w)"

text \<open>
  \<open>time.sleep(secs)\<close> checks its argument before it sleeps: a negative duration is a
  \<open>ValueError\<close>, a duration that does not fit a signed 64-bit count of nanoseconds an
  \<open>OverflowError\<close>, and a duration the platform refuses an \<open>OSError\<close>. Otherwise it
  sleeps at least \<open>secs\<close> seconds.
\<close>

definition time_sleep :: "real \<Rightarrow> world \<Rightarrow> (error + unit) \<times> world" where
  "time_sleep secs w =
     (if secs < 0 then (Inl ValueError, w)
      else if 2 ^ 63 \<le> secs * 10 ^ 9 then (Inl OverflowError, w)
      else if sleep_limit w \<le> secs then (Inl OSError, w)
      else (Inr (), elapse (w\<lparr>clock := clock w + secs, slept := slept w @ [secs]\<rparr>)))"

text \<open>A duration that \<open>time.sleep\<close> accepts, if it is not negative.\<close>

definition fits_sleep :: "world \<Rightarrow> real \<Rightarrow> bool" where
  "fits_sleep w secs = (secs * 10 ^ 9 < 2 ^ 63 \<and> secs < sleep_limit w)"

text \<open>A clock that never runs backwards: every lag is non-negative.\<close>

definition lags_ok :: "world \<Rightarrow> bool" where
  "lags_ok w = list_all (\<lambda>l. 0 \<le> l) (lags w)"

subsection \<open>The function\<close>

text \<open>
  The first statement, \<open>min_interval = 60.0 / max_requests_per_minute\<close>: the divisor
  is converted to a float, and then a zero divisor raises.
\<close>

definition min_interval :: "pynum \<Rightarrow> error + real" where
  "min_interval max_requests_per_minute =
     (case to_float max_requests_per_minute of
        Inl e \<Rightarrow> Inl e
      | Inr r \<Rightarrow> if r = 0 then Inl ZeroDivisionError else Inr (60 / r))"

text \<open>
  In the second statement the clock is read before \<open>last_request_time\<close> is converted
  for the subtraction.
\<close>

definition rate_limit :: "pynum \<Rightarrow> pynum \<Rightarrow> world \<Rightarrow> (error + real) \<times> world" where
  "rate_limit max_requests_per_minute last_request_time w =
     (case min_interval max_requests_per_minute of
        Inl e \<Rightarrow> (Inl e, w)
      | Inr mi \<Rightarrow>
          (let (now, w1) = time_time w in
           case to_float last_request_time of
             Inl e \<Rightarrow> (Inl e, w1)
           | Inr lrt \<Rightarrow>
               (let elapsed = now - lrt
                in if elapsed < mi then
                     (case time_sleep (mi - elapsed) w1 of
                        (Inl e, w2) \<Rightarrow> (Inl e, w2)
                      | (Inr u, w2) \<Rightarrow> (let (t, w3) = time_time w2 in (Inr t, w3)))
                   else (let (t, w3) = time_time w1 in (Inr t, w3)))))"

text \<open>The call with the default argument, \<open>last_request_time = 0\<close>.\<close>

definition rate_limit_default :: "pynum \<Rightarrow> world \<Rightarrow> (error + real) \<times> world" where
  "rate_limit_default max_requests_per_minute w =
     rate_limit max_requests_per_minute (PyInt 0) w"

text \<open>
  The loop of the docstring,
  \<^verbatim>\<open>
  last_time = 0
  for item in items:
      last_time = rate_limit(90, last_time)
      make_api_call()
  \<close>
  for \<open>n\<close> items, any ceiling and any starting value of \<open>last_time\<close>. It returns the
  timestamps that the successive calls returned. The duration of \<open>make_api_call()\<close>
  is the lag that follows the last clock reading of each call. An exception ends the loop.
\<close>

fun usage_loop :: "pynum \<Rightarrow> nat \<Rightarrow> pynum \<Rightarrow> world \<Rightarrow> (error + real list) \<times> world" where
  "usage_loop R 0 last_time w = (Inr [], w)"
| "usage_loop R (Suc n) last_time w =
     (case rate_limit R last_time w of
        (Inl e, w') \<Rightarrow> (Inl e, w')
      | (Inr t, w') \<Rightarrow>
          (case usage_loop R n (PyFloat t) w' of
             (Inl e, w'') \<Rightarrow> (Inl e, w'')
           | (Inr ts, w'') \<Rightarrow> (Inr (t # ts), w'')))"

text \<open>Successive entries of a list of timestamps are at least \<open>d\<close> apart.\<close>

fun spaced :: "real \<Rightarrow> real list \<Rightarrow> bool" where
  "spaced d (a # b # ts) = (a + d \<le> b \<and> spaced d (b # ts))"
| "spaced d ts = True"

subsection \<open>Example worlds\<close>

text \<open>The clock at 100 s, three lags, nothing slept yet.\<close>

definition w100 :: world where
  "w100 = \<lparr>clock = 100, lags = [1/10, 1/5, 1/2], slept = [], sleep_limit = 9223372000\<rparr>"

text \<open>The clock at 100 s; it is set back 3 s right after it is first read.\<close>

definition wback :: world where
  "wback = \<lparr>clock = 100, lags = [- 3], slept = [], sleep_limit = 9223372000\<rparr>"

text \<open>The clock at 100 s; it is set back 50 s right after it is read for the third time.\<close>

definition wback3 :: world where
  "wback3 = \<lparr>clock = 100, lags = [0, 0, - 50], slept = [], sleep_limit = 9223372000\<rparr>"

text \<open>
  An abbreviation for the proofs: the world after a wait of \<open>d\<close> seconds that starts
  once the first clock reading has returned.
\<close>

definition after_sleep :: "real \<Rightarrow> world \<Rightarrow> world" where
  "after_sleep d w =
     elapse ((elapse w)\<lparr>clock := clock (elapse w) + d, slept := slept (elapse w) @ [d]\<rparr>)"

subsection \<open>The environment primitives\<close>

lemma elapse_clock_mono: "lags_ok w \<Longrightarrow> clock w \<le> clock (elapse w)"
  by (cases "lags w") (simp_all add: elapse_def lags_ok_def)

lemma elapse_lags_ok: "lags_ok w \<Longrightarrow> lags_ok (elapse w)"
  by (cases "lags w") (simp_all add: elapse_def lags_ok_def)

lemma elapse_slept [simp]: "slept (elapse w) = slept w"
  by (cases "lags w") (simp_all add: elapse_def)

lemma elapse_sleep_limit [simp]: "sleep_limit (elapse w) = sleep_limit w"
  by (cases "lags w") (simp_all add: elapse_def)

lemma lags_ok_update [simp]:
  "lags_ok (w\<lparr>clock := c, slept := s\<rparr>) = lags_ok w"
  by (simp add: lags_ok_def)

lemma fits_sleep_elapse [simp]: "fits_sleep (elapse w) d = fits_sleep w d"
  by (simp add: fits_sleep_def)

lemma fits_sleep_mono: "fits_sleep w d' \<Longrightarrow> d \<le> d' \<Longrightarrow> fits_sleep w d"
  unfolding fits_sleep_def by (auto elim: order_le_less_trans [rotated] intro: mult_right_mono
    order_le_less_trans)

lemma time_sleep_ok:
  assumes "0 \<le> d" and "fits_sleep w d"
  shows "time_sleep d w =
           (Inr (), elapse (w\<lparr>clock := clock w + d, slept := slept w @ [d]\<rparr>))"
  using assms by (simp add: time_sleep_def fits_sleep_def not_le)

lemma float_limit_pos: "0 < float_limit"
  by (simp add: float_limit_def)

lemma to_float_ok: "float_ok x \<Longrightarrow> to_float x = Inr (num_value x)"
  by (cases x) (simp_all add: float_ok_def to_float_def num_value_def)

lemma to_float_overflow: "\<not> float_ok x \<Longrightarrow> to_float x = Inl OverflowError"
  by (cases x) (simp_all add: float_ok_def to_float_def)

lemma float_ok_small: "\<bar>n\<bar> < 2 ^ 1000 \<Longrightarrow> float_ok (PyInt n)"
proof -
  have "(2::int) ^ 1000 \<le> float_limit" by (simp add: float_limit_def)
  then show "\<bar>n\<bar> < 2 ^ 1000 \<Longrightarrow> float_ok (PyInt n)" by (simp add: float_ok_def)
qed

lemma float_ok_float [simp]: "float_ok (PyFloat r)"
  by (simp add: float_ok_def)

lemma not_float_ok_big: "\<not> float_ok (PyInt (2 ^ 1024))" "\<not> float_ok (PyInt (- (2 ^ 1024)))"
  by (simp_all add: float_ok_def float_limit_def)

lemma min_interval_ok:
  "float_ok R \<Longrightarrow> num_value R \<noteq> 0 \<Longrightarrow> min_interval R = Inr (60 / num_value R)"
  by (simp add: min_interval_def to_float_ok)

lemma min_interval_zero:
  "float_ok R \<Longrightarrow> num_value R = 0 \<Longrightarrow> min_interval R = Inl ZeroDivisionError"
  by (simp add: min_interval_def to_float_ok)

lemma min_interval_overflow: "\<not> float_ok R \<Longrightarrow> min_interval R = Inl OverflowError"
  by (simp add: min_interval_def to_float_overflow)

subsection \<open>The paths of \<open>rate_limit\<close>\<close>

lemma rate_limit_bad_ceiling:
  "\<not> float_ok R \<Longrightarrow> rate_limit R t0 w = (Inl OverflowError, w)"
  by (simp add: rate_limit_def min_interval_overflow)

lemma rate_limit_zero:
  "float_ok R \<Longrightarrow> num_value R = 0 \<Longrightarrow> rate_limit R t0 w = (Inl ZeroDivisionError, w)"
  by (simp add: rate_limit_def min_interval_zero)

lemma rate_limit_bad_last:
  assumes "float_ok R" and "num_value R \<noteq> 0" and "\<not> float_ok t0"
  shows "rate_limit R t0 w = (Inl OverflowError, elapse w)"
  using assms
  by (simp add: rate_limit_def min_interval_ok to_float_overflow time_time_def)

lemma rate_limit_nowait:
  assumes "float_ok R" and "num_value R \<noteq> 0" and "float_ok t0"
    and "\<not> clock w - num_value t0 < 60 / num_value R"
  shows "rate_limit R t0 w = (Inr (clock (elapse w)), elapse (elapse w))"
  using assms
  by (simp add: rate_limit_def min_interval_ok to_float_ok time_time_def Let_def)

lemma rate_limit_wait:
  assumes "float_ok R" and "num_value R \<noteq> 0" and "float_ok t0"
    and "clock w - num_value t0 < 60 / num_value R"
    and "fits_sleep w (60 / num_value R - (clock w - num_value t0))"
  shows "rate_limit R t0 w =
           (Inr (clock (after_sleep (60 / num_value R - (clock w - num_value t0)) w)),
            elapse (after_sleep (60 / num_value R - (clock w - num_value t0)) w))"
proof -
  let ?d = "60 / num_value R - (clock w - num_value t0)"
  have "0 \<le> ?d" using assms(4) by linarith
  moreover have "fits_sleep (elapse w) ?d" using assms(5) by simp
  ultimately have "time_sleep ?d (elapse w) =
      (Inr (), elapse ((elapse w)\<lparr>clock := clock (elapse w) + ?d,
                                  slept := slept (elapse w) @ [?d]\<rparr>))"
    by (rule time_sleep_ok)
  then show ?thesis
    using assms(1-4)
    by (simp add: rate_limit_def min_interval_ok to_float_ok time_time_def Let_def
        after_sleep_def)
qed

lemma rate_limit_refused:
  assumes "float_ok R" and "num_value R \<noteq> 0" and "float_ok t0"
    and "clock w - num_value t0 < 60 / num_value R"
    and "\<not> fits_sleep w (60 / num_value R - (clock w - num_value t0))"
  shows "rate_limit R t0 w = (Inl OverflowError, elapse w) \<or>
         rate_limit R t0 w = (Inl OSError, elapse w)"
proof -
  let ?d = "60 / num_value R - (clock w - num_value t0)"
  have "\<not> ?d < 0" using assms(4) by linarith
  moreover have "2 ^ 63 \<le> ?d * 10 ^ 9 \<or> sleep_limit w \<le> ?d"
    using assms(5) by (auto simp add: fits_sleep_def not_less)
  ultimately have "time_sleep ?d (elapse w) = (Inl OverflowError, elapse w) \<or>
      time_sleep ?d (elapse w) = (Inl OSError, elapse w)"
    unfolding time_sleep_def by (cases "2 ^ 63 \<le> ?d * 10 ^ 9") simp_all
  then show ?thesis
    using assms(1-4)
    by (auto simp add: rate_limit_def min_interval_ok to_float_ok time_time_def Let_def)
qed

lemma after_sleep_clock:
  assumes "lags_ok w"
  shows "clock w + d \<le> clock (after_sleep d w)"
proof -
  let ?v = "(elapse w)\<lparr>clock := clock (elapse w) + d, slept := slept (elapse w) @ [d]\<rparr>"
  have "lags_ok ?v" using assms by (simp add: elapse_lags_ok)
  then have "clock ?v \<le> clock (elapse ?v)" by (rule elapse_clock_mono)
  moreover have "clock w \<le> clock (elapse w)" using assms by (rule elapse_clock_mono)
  ultimately show ?thesis by (simp add: after_sleep_def)
qed

lemma after_sleep_lags_ok: "lags_ok w \<Longrightarrow> lags_ok (after_sleep d w)"
  by (simp add: after_sleep_def elapse_lags_ok)

lemma after_sleep_slept [simp]: "slept (after_sleep d w) = slept w @ [d]"
  by (simp add: after_sleep_def)

lemma after_sleep_sleep_limit [simp]: "sleep_limit (after_sleep d w) = sleep_limit w"
  by (simp add: after_sleep_def)

text \<open>
  One successful call on a clock that does not run backwards: the returned timestamp is
  at least the minimum interval after \<open>last_request_time\<close>, not before the clock at
  entry and not after the clock at exit.
\<close>

lemma rate_limit_step:
  assumes "0 < num_value R" and "float_ok R" and "float_ok t0" and "lags_ok w"
    and "clock w - num_value t0 < 60 / num_value R \<longrightarrow>
           fits_sleep w (60 / num_value R - (clock w - num_value t0))"
  shows "\<exists>t w'. rate_limit R t0 w = (Inr t, w') \<and> num_value t0 + 60 / num_value R \<le> t \<and>
           clock w \<le> t \<and> t \<le> clock w' \<and> lags_ok w' \<and> sleep_limit w' = sleep_limit w"
proof (cases "clock w - num_value t0 < 60 / num_value R")
  case True
  let ?d = "60 / num_value R - (clock w - num_value t0)"
  let ?v = "after_sleep ?d w"
  have nz: "num_value R \<noteq> 0" using assms(1) by simp
  have fit: "fits_sleep w ?d" using assms(5) True by blast
  have eq: "rate_limit R t0 w = (Inr (clock ?v), elapse ?v)"
    using assms(2) nz assms(3) True fit by (rule rate_limit_wait)
  have ok: "lags_ok ?v" using assms(4) by (rule after_sleep_lags_ok)
  have c: "clock w + ?d \<le> clock ?v" using assms(4) by (rule after_sleep_clock)
  have "num_value t0 + 60 / num_value R \<le> clock ?v" using c by simp
  moreover have "clock w \<le> clock ?v" using c True by linarith
  moreover have "clock ?v \<le> clock (elapse ?v)" using ok by (rule elapse_clock_mono)
  moreover have "lags_ok (elapse ?v)" using ok by (rule elapse_lags_ok)
  moreover have "sleep_limit (elapse ?v) = sleep_limit w" by simp
  ultimately show ?thesis using eq by blast
next
  case False
  let ?v = "elapse w"
  have nz: "num_value R \<noteq> 0" using assms(1) by simp
  have eq: "rate_limit R t0 w = (Inr (clock ?v), elapse ?v)"
    using assms(2) nz assms(3) False by (rule rate_limit_nowait)
  have ok: "lags_ok ?v" using assms(4) by (rule elapse_lags_ok)
  have c: "clock w \<le> clock ?v" using assms(4) by (rule elapse_clock_mono)
  have "num_value t0 + 60 / num_value R \<le> clock ?v" using c False by linarith
  moreover have "clock ?v \<le> clock (elapse ?v)" using ok by (rule elapse_clock_mono)
  moreover have "lags_ok (elapse ?v)" using ok by (rule elapse_lags_ok)
  moreover have "sleep_limit (elapse ?v) = sleep_limit w" by simp
  ultimately show ?thesis using eq c by blast
qed

lemma w100_lags_ok: "lags_ok w100"
  by (simp add: w100_def lags_ok_def)

lemma float_ok_examples:
  "float_ok (PyInt 0)" "float_ok (PyInt 1)" "float_ok (PyInt 60)" "float_ok (PyInt 90)"
  "float_ok (PyInt 120)" "float_ok (PyInt (- 1))" "float_ok (PyInt (- 3))"
  "float_ok (PyInt (- 5))"
  by (simp_all add: float_ok_small)

lemma num_value_simps [simp]:
  "num_value (PyInt n) = real_of_int n" "num_value (PyFloat r) = r"
  by (simp_all add: num_value_def)

subsection \<open>Errors\<close>

text \<open>
  C1, as stated, fails on the code in both directions. A negative ceiling raises
  nothing: with the ceiling \<open>-1\<close>, the default \<open>last_request_time\<close> and the clock
  at 100 s the call returns the second clock reading, 100.1 s. And a positive ceiling can
  raise: with the ceiling 1 and a \<open>last_request_time\<close> of \<open>2 * 10^10\<close> s the wait
  would be 19999999960 s, which \<open>time.sleep\<close> refuses with \<open>OverflowError\<close>.
\<close>

theorem rate_limit_negative_returns:
  "fst (rate_limit (PyInt (- 1)) (PyInt 0) w100) = Inr (1001 / 10) \<and>
   fst (rate_limit (PyInt 1) (PyFloat 20000000000) w100) = Inl OverflowError"
  by (simp add: rate_limit_def min_interval_ok to_float_ok float_ok_examples time_time_def
      time_sleep_def elapse_def w100_def)

text \<open>
  C1 (amended): \<open>rate_limit\<close> never raises an \<open>InvalidArgument\<close> error. For
  \<open>max_requests_per_minute = 0\<close> it raises Python's \<open>ZeroDivisionError\<close>, and it does
  so before the clock is read or a wait is attempted: the world is unchanged. For every
  other ceiling, positive or negative, no error is raised, provided that both arguments
  convert to a float and that the wait, if one is needed, is one that \<open>time.sleep\<close>
  accepts.
\<close>

theorem rate_limit_errors:
  "fst (rate_limit R t0 w) \<noteq> Inl InvalidArgument \<and>
   (float_ok R \<and> num_value R = 0 \<longrightarrow> rate_limit R t0 w = (Inl ZeroDivisionError, w)) \<and>
   (float_ok R \<and> num_value R \<noteq> 0 \<and> float_ok t0 \<and>
      (clock w - num_value t0 < 60 / num_value R \<longrightarrow>
         fits_sleep w (60 / num_value R - (clock w - num_value t0)))
    \<longrightarrow> \<not> isl (fst (rate_limit R t0 w)))"
proof -
  have a: "fst (rate_limit R t0 w) \<noteq> Inl InvalidArgument"
  proof (cases "float_ok R")
    case False
    then show ?thesis by (simp add: rate_limit_bad_ceiling)
  next
    case okR: True
    show ?thesis
    proof (cases "num_value R = 0")
      case True
      with okR show ?thesis by (simp add: rate_limit_zero)
    next
      case nz: False
      show ?thesis
      proof (cases "float_ok t0")
        case False
        with okR nz show ?thesis by (simp add: rate_limit_bad_last)
      next
        case ok0: True
        show ?thesis
        proof (cases "clock w - num_value t0 < 60 / num_value R")
          case False
          with okR nz ok0 show ?thesis by (simp add: rate_limit_nowait)
        next
          case lt: True
          show ?thesis
          proof (cases "fits_sleep w (60 / num_value R - (clock w - num_value t0))")
            case True
            with okR nz ok0 lt show ?thesis by (simp add: rate_limit_wait)
          next
            case False
            with rate_limit_refused [OF okR nz ok0 lt] show ?thesis by auto
          qed
        qed
      qed
    qed
  qed
  have b: "rate_limit R t0 w = (Inl ZeroDivisionError, w)" if "float_ok R" "num_value R = 0"
    using that by (rule rate_limit_zero)
  have c: "\<not> isl (fst (rate_limit R t0 w))"
    if okR: "float_ok R" and nz: "num_value R \<noteq> 0" and ok0: "float_ok t0"
      and fit: "clock w - num_value t0 < 60 / num_value R \<longrightarrow>
         fits_sleep w (60 / num_value R - (clock w - num_value t0))"
  proof (cases "clock w - num_value t0 < 60 / num_value R")
    case True
    then have "fits_sleep w (60 / num_value R - (clock w - num_value t0))" using fit by blast
    with okR nz ok0 True show ?thesis by (simp add: rate_limit_wait)
  next
    case False
    with okR nz ok0 show ?thesis by (simp add: rate_limit_nowait)
  qed
  show ?thesis using a b c by blast
qed

theorem rate_limit_errors_witness:
  "float_ok (PyInt 0) \<and> num_value (PyInt 0) = 0 \<and>
   rate_limit (PyInt 0) (PyInt 7) w100 = (Inl ZeroDivisionError, w100) \<and>
   float_ok (PyInt 60) \<and> num_value (PyInt 60) \<noteq> 0 \<and> float_ok (PyFloat (997 / 10)) \<and>
   fits_sleep w100 (60 / num_value (PyInt 60) - (clock w100 - num_value (PyFloat (997 / 10)))) \<and>
   \<not> isl (fst (rate_limit (PyInt 60) (PyFloat (997 / 10)) w100))"
proof -
  have f: "fits_sleep w100 (60 / num_value (PyInt 60) - (clock w100 - num_value (PyFloat (997 / 10))))"
    by (simp add: fits_sleep_def w100_def)
  show ?thesis
    using rate_limit_errors [of "PyInt 0" "PyInt 7" w100]
      rate_limit_errors [of "PyInt 60" "PyFloat (997 / 10)" w100] f float_ok_examples
    by simp
qed

subsection \<open>The minimum interval\<close>

text \<open>
  C5, as stated, fails on the code for a positive int ceiling that is too large for a
  float: at \<open>2^1024\<close> the division raises \<open>OverflowError\<close> and no interval is
  computed.
\<close>

theorem min_interval_overflows:
  "min_interval (PyInt (2 ^ 1024)) = Inl OverflowError"
  by (rule min_interval_overflow) (rule not_float_ok_big)

text \<open>
  C5 (amended): for every positive \<open>max_requests_per_minute\<close> that converts to a float
  the first statement of \<open>rate_limit\<close> raises nothing and computes the interval
  \<open>60 / max_requests_per_minute\<close> seconds, and this is the interval the function
  enforces: a call that is handed the clock value at entry as \<open>last_request_time\<close>
  asks for a sleep of exactly that interval (when \<open>time.sleep\<close> accepts it). For a
  ceiling of 60 the interval is exactly 1 second.
\<close>

theorem min_interval_positive:
  assumes "0 < num_value R" and "float_ok R"
  shows "min_interval R = Inr (60 / num_value R) \<and> min_interval (PyInt 60) = Inr 1 \<and>
         (fits_sleep w (60 / num_value R) \<longrightarrow>
            slept (snd (rate_limit R (PyFloat (clock w)) w)) = slept w @ [60 / num_value R])"
proof -
  have nz: "num_value R \<noteq> 0" using assms(1) by simp
  have a: "min_interval R = Inr (60 / num_value R)"
    using assms(2) nz by (rule min_interval_ok)
  have b: "min_interval (PyInt 60) = Inr 1"
    by (simp add: min_interval_ok float_ok_examples)
  have c: "slept (snd (rate_limit R (PyFloat (clock w)) w)) = slept w @ [60 / num_value R]"
    if fit: "fits_sleep w (60 / num_value R)"
  proof -
    have lt: "clock w - num_value (PyFloat (clock w)) < 60 / num_value R"
      using assms(1) by simp
    have d: "60 / num_value R - (clock w - num_value (PyFloat (clock w))) = 60 / num_value R"
      by simp
    have "fits_sleep w (60 / num_value R - (clock w - num_value (PyFloat (clock w))))"
      using fit by (simp only: d)
    from rate_limit_wait [OF assms(2) nz float_ok_float lt this]
    show ?thesis by (simp only: d snd_conv after_sleep_slept elapse_slept)
  qed
  show ?thesis using a b c by blast
qed

theorem min_interval_positive_witness:
  "0 < num_value (PyInt 90) \<and> float_ok (PyInt 90) \<and> fits_sleep w100 (60 / num_value (PyInt 90)) \<and>
   min_interval (PyInt 90) = Inr (2 / 3) \<and> min_interval (PyInt 60) = Inr 1 \<and>
   slept (snd (rate_limit (PyInt 90) (PyFloat (clock w100)) w100)) = slept w100 @ [2 / 3]"
proof -
  have f: "fits_sleep w100 (60 / num_value (PyInt 90))"
    by (simp add: fits_sleep_def w100_def)
  show ?thesis
    using min_interval_positive [of "PyInt 90" w100] f float_ok_examples by simp
qed

subsection \<open>Waiting and not waiting\<close>

text \<open>
  C2, as stated, fails on the code. With the ceiling 1, a \<open>last_request_time\<close> of
  \<open>2 * 10^10\<close> s and the clock at 100 s the condition \<open>now - t0 < 60 / R\<close> holds,
  but \<open>time.sleep\<close> refuses the wait of 19999999960 s: the call raises
  \<open>OverflowError\<close> and has not slept. And with the ceiling 60, a
  \<open>last_request_time\<close> of 99.5 s and a clock at 100 s that is set back 3 s after it is
  read, the call sleeps 0.5 s and returns 97.5 s, which is less than \<open>t0 + 60 / R\<close>.
\<close>

theorem rate_limit_waits_fails:
  "rate_limit (PyInt 1) (PyFloat 20000000000) w100 = (Inl OverflowError, elapse w100) \<and>
   slept (elapse w100) = [] \<and>
   rate_limit (PyInt 60) (PyFloat (199 / 2)) wback =
     (Inr (195 / 2), \<lparr>clock = 195 / 2, lags = [], slept = [1 / 2], sleep_limit = 9223372000\<rparr>) \<and>
   (195 / 2 :: real) < 199 / 2 + 60 / 60"
  by (simp add: rate_limit_def min_interval_ok to_float_ok float_ok_examples time_time_def
      time_sleep_def elapse_def w100_def wback_def)

text \<open>
  C2 (amended): for a positive ceiling \<open>R\<close> and a \<open>last_request_time\<close> \<open>t0\<close>
  that both convert to a float, with \<open>now - t0 < 60 / R\<close>, where \<open>now\<close> is the
  clock at entry, and a wait \<open>60 / R - (now - t0)\<close> that \<open>time.sleep\<close> accepts,
  \<open>rate_limit\<close> calls the sleep primitive once, with exactly
  \<open>60 / R - (now - t0)\<close> seconds, and returns a timestamp; on a clock that does not
  run backwards the timestamp is at least \<open>t0 + 60 / R\<close>.
\<close>

theorem rate_limit_waits:
  assumes "0 < num_value R" and "float_ok R" and "float_ok t0"
    and "clock w - num_value t0 < 60 / num_value R"
    and "fits_sleep w (60 / num_value R - (clock w - num_value t0))"
  shows "slept (snd (rate_limit R t0 w)) =
           slept w @ [60 / num_value R - (clock w - num_value t0)] \<and>
         (\<exists>t. fst (rate_limit R t0 w) = Inr t \<and>
              (lags_ok w \<longrightarrow> num_value t0 + 60 / num_value R \<le> t))"
proof -
  let ?d = "60 / num_value R - (clock w - num_value t0)"
  have nz: "num_value R \<noteq> 0" using assms(1) by simp
  have eq: "rate_limit R t0 w = (Inr (clock (after_sleep ?d w)), elapse (after_sleep ?d w))"
    using assms(2) nz assms(3,4,5) by (rule rate_limit_wait)
  have "num_value t0 + 60 / num_value R \<le> clock (after_sleep ?d w)" if "lags_ok w"
    using after_sleep_clock [OF that, of ?d] by simp
  then show ?thesis using eq by simp
qed

theorem rate_limit_waits_witness:
  "0 < num_value (PyInt 60) \<and> float_ok (PyInt 60) \<and> float_ok (PyFloat (997 / 10)) \<and>
   clock w100 - num_value (PyFloat (997 / 10)) < 60 / num_value (PyInt 60) \<and>
   fits_sleep w100 (60 / num_value (PyInt 60) - (clock w100 - num_value (PyFloat (997 / 10)))) \<and>
   lags_ok w100 \<and>
   slept (snd (rate_limit (PyInt 60) (PyFloat (997 / 10)) w100)) = slept w100 @ [7 / 10] \<and>
   (\<exists>t. fst (rate_limit (PyInt 60) (PyFloat (997 / 10)) w100) = Inr t \<and>
        num_value (PyFloat (997 / 10)) + 60 / num_value (PyInt 60) \<le> t)"
proof -
  have h: "clock w100 - num_value (PyFloat (997 / 10)) < 60 / num_value (PyInt 60)"
    by (simp add: w100_def)
  have f: "fits_sleep w100 (60 / num_value (PyInt 60) - (clock w100 - num_value (PyFloat (997 / 10))))"
    by (simp add: fits_sleep_def w100_def)
  have d: "60 / num_value (PyInt 60) - (clock w100 - num_value (PyFloat (997 / 10))) = 7 / 10"
    by (simp add: w100_def)
  have p: "0 < num_value (PyInt 60)" by simp
  show ?thesis
    using rate_limit_waits [OF p float_ok_examples(3) float_ok_float h f] h f d p
      float_ok_examples(3) w100_lags_ok
    by simp
qed

text \<open>
  C3, as stated, fails on the code. With the ceiling 60, the default
  \<open>last_request_time\<close> and a clock at 100 s that is set back 3 s after it is read,
  the call returns 97 s, which is less than \<open>now\<close>. And the positive int ceiling
  \<open>2^1024\<close> returns nothing: the division raises \<open>OverflowError\<close>.
\<close>

theorem rate_limit_no_wait_fails:
  "fst (rate_limit (PyInt 60) (PyInt 0) wback) = Inr 97 \<and> (97 :: real) < clock wback \<and>
   fst (rate_limit (PyInt (2 ^ 1024)) (PyInt 0) w100) = Inl OverflowError"
proof -
  have "fst (rate_limit (PyInt 60) (PyInt 0) wback) = Inr 97 \<and> (97 :: real) < clock wback"
    by (simp add: rate_limit_def min_interval_ok to_float_ok float_ok_examples time_time_def
        elapse_def wback_def)
  moreover have "fst (rate_limit (PyInt (2 ^ 1024)) (PyInt 0) w100) = Inl OverflowError"
    using rate_limit_bad_ceiling [OF not_float_ok_big(1), of "PyInt 0" w100]
    by (simp only: fst_conv)
  ultimately show ?thesis by blast
qed

text \<open>
  C3 (amended): for a positive ceiling \<open>R\<close> and a \<open>last_request_time\<close> \<open>t0\<close>
  that both convert to a float, with \<open>now - t0 \<ge> 60 / R\<close>, \<open>rate_limit\<close> does not
  call the sleep primitive and returns the second clock reading, which on a clock that
  does not run backwards is at least \<open>now\<close>.
\<close>

theorem rate_limit_no_wait:
  assumes "0 < num_value R" and "float_ok R" and "float_ok t0"
    and "60 / num_value R \<le> clock w - num_value t0"
  shows "slept (snd (rate_limit R t0 w)) = slept w \<and>
         fst (rate_limit R t0 w) = Inr (clock (elapse w)) \<and>
         (lags_ok w \<longrightarrow> clock w \<le> clock (elapse w))"
proof -
  have nz: "num_value R \<noteq> 0" using assms(1) by simp
  have ge: "\<not> clock w - num_value t0 < 60 / num_value R" using assms(4) by simp
  have "rate_limit R t0 w = (Inr (clock (elapse w)), elapse (elapse w))"
    using assms(2) nz assms(3) ge by (rule rate_limit_nowait)
  then show ?thesis by (simp add: elapse_clock_mono)
qed

theorem rate_limit_no_wait_witness:
  "0 < num_value (PyInt 120) \<and> float_ok (PyInt 120) \<and> float_ok (PyFloat 95) \<and>
   60 / num_value (PyInt 120) \<le> clock w100 - num_value (PyFloat 95) \<and> lags_ok w100 \<and>
   slept (snd (rate_limit (PyInt 120) (PyFloat 95) w100)) = slept w100 \<and>
   fst (rate_limit (PyInt 120) (PyFloat 95) w100) = Inr (1001 / 10) \<and>
   clock w100 \<le> 1001 / 10"
proof -
  have h: "60 / num_value (PyInt 120) \<le> clock w100 - num_value (PyFloat 95)"
    by (simp add: w100_def)
  have c: "clock (elapse w100) = 1001 / 10" by (simp add: elapse_def w100_def)
  have p: "0 < num_value (PyInt 120)" by simp
  show ?thesis
    using rate_limit_no_wait [OF p float_ok_examples(5) float_ok_float h] h p
      float_ok_examples(5) w100_lags_ok
    by (simp add: c)
qed

text \<open>
  C6, as stated, fails on the code: the function has no fast path for the sentinel
  \<open>last_request_time = 0\<close> and compares the clock itself with the interval. With a
  ceiling of 1 request per minute and the clock at 10 s the call sleeps 50 seconds.
\<close>

theorem rate_limit_sentinel_waits:
  "slept (snd (rate_limit_default (PyInt 1)
     \<lparr>clock = 10, lags = [], slept = [], sleep_limit = 9223372000\<rparr>)) = [50]"
  by (simp add: rate_limit_default_def rate_limit_def min_interval_ok to_float_ok
      float_ok_examples time_time_def time_sleep_def elapse_def)

text \<open>
  C6 (amended): for every positive ceiling \<open>R\<close>, a call with the sentinel
  \<open>last_request_time = 0\<close> triggers no wait whenever the clock at entry reads at least
  \<open>60 / R\<close> seconds.
\<close>

theorem rate_limit_sentinel:
  assumes "0 < num_value R" and "60 / num_value R \<le> clock w"
  shows "slept (snd (rate_limit_default R w)) = slept w"
proof (cases "float_ok R")
  case False
  then show ?thesis by (simp add: rate_limit_default_def rate_limit_bad_ceiling)
next
  case True
  have nz: "num_value R \<noteq> 0" using assms(1) by simp
  have ge: "\<not> clock w - num_value (PyInt 0) < 60 / num_value R" using assms(2) by simp
  have "rate_limit R (PyInt 0) w = (Inr (clock (elapse w)), elapse (elapse w))"
    using True nz float_ok_examples(1) ge by (rule rate_limit_nowait)
  then show ?thesis by (simp add: rate_limit_default_def)
qed

theorem rate_limit_sentinel_witness:
  "0 < num_value (PyFloat (1 / 2)) \<and> 60 / num_value (PyFloat (1 / 2)) \<le> clock w100 + 20 \<and>
   slept (snd (rate_limit_default (PyFloat (1 / 2)) (w100\<lparr>clock := clock w100 + 20\<rparr>))) = slept w100"
proof -
  have h: "60 / num_value (PyFloat (1 / 2)) \<le> clock (w100\<lparr>clock := clock w100 + 20\<rparr>)"
    by (simp add: w100_def)
  have p: "0 < num_value (PyFloat (1 / 2))" by simp
  show ?thesis using rate_limit_sentinel [OF p h] h p by simp
qed

subsection \<open>Inputs outside the documented range\<close>

text \<open>
  C8, as stated, fails on the code for a negative int ceiling that is too large for a
  float: at \<open>- 2^1024\<close> the division raises \<open>OverflowError\<close>.
\<close>

theorem rate_limit_negative_ceiling_overflows:
  "rate_limit (PyInt (- (2 ^ 1024))) (PyInt 0) w100 = (Inl OverflowError, w100)"
  by (rule rate_limit_bad_ceiling) (rule not_float_ok_big)

text \<open>
  C8 (amended): for every negative ceiling and every \<open>last_request_time\<close> that is not
  later than the clock at entry, both convertible to a float, \<open>rate_limit\<close> raises no
  error, does not sleep, and returns the current time, which is the clock value of its
  second reading.
\<close>

theorem rate_limit_negative_ceiling:
  assumes "num_value R < 0" and "float_ok R" and "float_ok t0" and "num_value t0 \<le> clock w"
  shows "rate_limit R t0 w = (Inr (clock (elapse w)), elapse (elapse w)) \<and>
         slept (snd (rate_limit R t0 w)) = slept w"
proof -
  have nz: "num_value R \<noteq> 0" using assms(1) by simp
  have "60 / num_value R < 0" using assms(1) by (simp add: divide_less_0_iff)
  then have ge: "\<not> clock w - num_value t0 < 60 / num_value R" using assms(4) by linarith
  have "rate_limit R t0 w = (Inr (clock (elapse w)), elapse (elapse w))"
    using assms(2) nz assms(3) ge by (rule rate_limit_nowait)
  then show ?thesis by simp
qed

theorem rate_limit_negative_ceiling_witness:
  "num_value (PyInt (- 5)) < 0 \<and> float_ok (PyInt (- 5)) \<and> float_ok (PyFloat 40) \<and>
   num_value (PyFloat 40) \<le> clock w100 \<and>
   rate_limit (PyInt (- 5)) (PyFloat 40) w100 = (Inr (clock (elapse w100)), elapse (elapse w100)) \<and>
   slept (snd (rate_limit (PyInt (- 5)) (PyFloat 40) w100)) = slept w100"
proof -
  have h: "num_value (PyFloat 40) \<le> clock w100" by (simp add: w100_def)
  have p: "num_value (PyInt (- 5)) < 0" by simp
  show ?thesis
    using rate_limit_negative_ceiling [OF p float_ok_examples(8) float_ok_float h] h p
      float_ok_examples(8)
    by simp
qed

text \<open>
  C9, as stated, fails on the code for a \<open>last_request_time\<close> far in the future: with
  the ceiling 60, a \<open>last_request_time\<close> of \<open>3 * 10^10\<close> s and the clock at 100 s,
  \<open>time.sleep\<close> refuses the wait of 29999999901 s; the call raises
  \<open>OverflowError\<close>, has not slept, and returns no timestamp.
\<close>

theorem rate_limit_future_fails:
  "rate_limit (PyInt 60) (PyFloat 30000000000) w100 = (Inl OverflowError, elapse w100) \<and>
   slept (elapse w100) = []"
  by (simp add: rate_limit_def min_interval_ok to_float_ok float_ok_examples time_time_def
      time_sleep_def elapse_def w100_def)

text \<open>
  C9 (amended): for every positive ceiling \<open>R\<close>, if \<open>last_request_time\<close> lies in
  the future (it exceeds the clock at entry), both convert to a float, and
  \<open>time.sleep\<close> accepts the wait, \<open>rate_limit\<close> sleeps for \<open>60 / R\<close> plus the
  amount by which \<open>last_request_time\<close> exceeds the clock, which is strictly more than
  the minimum interval, and returns a timestamp; on a clock that does not run backwards
  the timestamp is at least \<open>last_request_time + 60 / R\<close>.
\<close>

theorem rate_limit_future:
  assumes "0 < num_value R" and "float_ok R" and "float_ok t0"
    and "clock w < num_value t0"
    and "fits_sleep w (60 / num_value R + (num_value t0 - clock w))"
  shows "slept (snd (rate_limit R t0 w)) =
           slept w @ [60 / num_value R + (num_value t0 - clock w)] \<and>
         60 / num_value R < 60 / num_value R + (num_value t0 - clock w) \<and>
         (\<exists>t. fst (rate_limit R t0 w) = Inr t \<and>
              (lags_ok w \<longrightarrow> num_value t0 + 60 / num_value R \<le> t))"
proof -
  let ?d = "60 / num_value R - (clock w - num_value t0)"
  have d: "?d = 60 / num_value R + (num_value t0 - clock w)" by simp
  have nz: "num_value R \<noteq> 0" using assms(1) by simp
  have pos: "0 < 60 / num_value R" using assms(1) by simp
  then have lt: "clock w - num_value t0 < 60 / num_value R" using assms(4) by linarith
  have fit: "fits_sleep w ?d" using assms(5) by (simp only: d)
  have eq: "rate_limit R t0 w = (Inr (clock (after_sleep ?d w)), elapse (after_sleep ?d w))"
    using assms(2) nz assms(3) lt fit by (rule rate_limit_wait)
  have "num_value t0 + 60 / num_value R \<le> clock (after_sleep ?d w)" if "lags_ok w"
    using after_sleep_clock [OF that, of ?d] by simp
  then show ?thesis using eq assms(4) by (simp add: d)
qed

theorem rate_limit_future_witness:
  "0 < num_value (PyInt 60) \<and> float_ok (PyInt 60) \<and> float_ok (PyFloat 103) \<and>
   clock w100 < num_value (PyFloat 103) \<and>
   fits_sleep w100 (60 / num_value (PyInt 60) + (num_value (PyFloat 103) - clock w100)) \<and>
   lags_ok w100 \<and>
   slept (snd (rate_limit (PyInt 60) (PyFloat 103) w100)) = slept w100 @ [4] \<and>
   (\<exists>t. fst (rate_limit (PyInt 60) (PyFloat 103) w100) = Inr t \<and>
        num_value (PyFloat 103) + 60 / num_value (PyInt 60) \<le> t)"
proof -
  have h: "clock w100 < num_value (PyFloat 103)" by (simp add: w100_def)
  have f: "fits_sleep w100 (60 / num_value (PyInt 60) + (num_value (PyFloat 103) - clock w100))"
    by (simp add: fits_sleep_def w100_def)
  have d: "60 / num_value (PyInt 60) + (num_value (PyFloat 103) - clock w100) = 4"
    by (simp add: w100_def)
  have p: "0 < num_value (PyInt 60)" by simp
  show ?thesis
    using rate_limit_future [OF p float_ok_examples(3) float_ok_float h f] h f d p
      float_ok_examples(3) w100_lags_ok
    by simp
qed

text \<open>
  C10: whenever \<open>rate_limit\<close> invokes the sleep primitive, the duration is strictly
  positive, for all inputs: the sleep log is only extended, every entry the call adds is
  strictly positive, and the \<open>ValueError\<close> of a negative sleep argument is never raised.
\<close>

theorem rate_limit_sleep_positive:
  "take (length (slept w)) (slept (snd (rate_limit R t0 w))) = slept w \<and>
   list_all (\<lambda>d. 0 < d) (drop (length (slept w)) (slept (snd (rate_limit R t0 w)))) \<and>
   fst (rate_limit R t0 w) \<noteq> Inl ValueError"
proof (cases "float_ok R")
  case False
  then show ?thesis by (simp add: rate_limit_bad_ceiling)
next
  case okR: True
  show ?thesis
  proof (cases "num_value R = 0")
    case True
    with okR show ?thesis by (simp add: rate_limit_zero)
  next
    case nz: False
    show ?thesis
    proof (cases "float_ok t0")
      case False
      with okR nz show ?thesis by (simp add: rate_limit_bad_last)
    next
      case ok0: True
      show ?thesis
      proof (cases "clock w - num_value t0 < 60 / num_value R")
        case False
        with okR nz ok0 show ?thesis by (simp add: rate_limit_nowait)
      next
        case lt: True
        show ?thesis
        proof (cases "fits_sleep w (60 / num_value R - (clock w - num_value t0))")
          case True
          with okR nz ok0 lt show ?thesis by (simp add: rate_limit_wait)
        next
          case False
          with rate_limit_refused [OF okR nz ok0 lt] show ?thesis by auto
        qed
      qed
    qed
  qed
qed

theorem rate_limit_sleep_positive_witness:
  "slept (snd (rate_limit (PyInt (- 3)) (PyInt 130) w100)) = [10] \<and>
   fst (rate_limit (PyInt (- 3)) (PyInt 130) w100) \<noteq> Inl ValueError"
proof -
  have "slept (snd (rate_limit (PyInt (- 3)) (PyInt 130) w100)) = [10]"
    by (simp add: rate_limit_def min_interval_ok to_float_ok float_ok_examples float_ok_small
        time_time_def time_sleep_def elapse_def w100_def)
  then show ?thesis
    using rate_limit_sleep_positive [of w100 "PyInt (- 3)" "PyInt 130"] by simp
qed

subsection \<open>The loop\<close>

lemma usage_loop_inv:
  assumes "0 < num_value R" and "float_ok R"
  shows "float_ok t0 \<Longrightarrow> lags_ok w \<Longrightarrow> fits_sleep w (60 / num_value R) \<Longrightarrow>
         (clock w - num_value t0 < 60 / num_value R \<longrightarrow>
            fits_sleep w (60 / num_value R - (clock w - num_value t0))) \<Longrightarrow>
         \<exists>ts w'. usage_loop R n t0 w = (Inr ts, w') \<and> length ts = n \<and>
           spaced (60 / num_value R) ts \<and> lags_ok w' \<and> clock w \<le> clock w' \<and>
           (ts \<noteq> [] \<longrightarrow> num_value t0 + 60 / num_value R \<le> hd ts \<and> clock w \<le> hd ts \<and>
              hd ts + real (n - 1) * (60 / num_value R) \<le> last ts \<and> last ts \<le> clock w')"
proof (induction n arbitrary: t0 w)
  case 0
  then show ?case by simp
next
  case (Suc n)
  let ?d = "60 / num_value R"
  obtain t w1 where step: "rate_limit R t0 w = (Inr t, w1)" "num_value t0 + ?d \<le> t"
      "clock w \<le> t" "t \<le> clock w1" "lags_ok w1" "sleep_limit w1 = sleep_limit w"
    using rate_limit_step [OF assms Suc.prems(1,2,4)] by blast
  have fit1: "fits_sleep w1 ?d"
    using Suc.prems(3) step(6) by (simp add: fits_sleep_def)
  have "?d - (clock w1 - num_value (PyFloat t)) \<le> ?d" using step(4) by simp
  with fit1 have fit2: "fits_sleep w1 (?d - (clock w1 - num_value (PyFloat t)))"
    by (rule fits_sleep_mono)
  obtain ts w2 where rest: "usage_loop R n (PyFloat t) w1 = (Inr ts, w2)" "length ts = n"
      "spaced ?d ts" "lags_ok w2" "clock w1 \<le> clock w2"
      "ts \<noteq> [] \<longrightarrow> t + ?d \<le> hd ts \<and> clock w1 \<le> hd ts \<and>
         hd ts + real (n - 1) * ?d \<le> last ts \<and> last ts \<le> clock w2"
    using Suc.IH [OF float_ok_float step(5) fit1, of t] fit2 by auto
  have eq: "usage_loop R (Suc n) t0 w = (Inr (t # ts), w2)"
    using step(1) rest(1) by simp
  have sp: "spaced ?d (t # ts)"
    using rest(3,6) by (cases ts) simp_all
  have cl: "clock w \<le> clock w2"
    using step(3,4) rest(5) by linarith
  have tl: "t + real n * ?d \<le> last (t # ts) \<and> last (t # ts) \<le> clock w2"
  proof (cases ts)
    case Nil
    then show ?thesis using rest(2,5) step(4) by simp
  next
    case (Cons a as)
    then have "n = Suc (n - 1)" using rest(2) by auto
    then have "real n = real (n - 1) + 1" by linarith
    then have n: "t + real n * ?d = t + ?d + real (n - 1) * ?d"
      by (simp only: distrib_right mult_1 add.assoc add.commute)
    have r: "hd ts + real (n - 1) * ?d \<le> last ts" "last ts \<le> clock w2" "t + ?d \<le> hd ts"
      using rest(6) Cons by simp_all
    have "t + real n * ?d \<le> last ts" using n r by linarith
    then show ?thesis using Cons r(2) by simp
  qed
  have hd: "hd (t # ts) = t" by simp
  have len: "length (t # ts) = Suc n" using rest(2) by simp
  have "Suc n - 1 = n" by simp
  then show ?case
    using eq len rest(4) sp cl step(2,3) tl hd by (intro exI [of _ "t # ts"] exI [of _ w2]) simp
qed

text \<open>
  The loop on the example world, started with the default \<open>last_time\<close> and with a
  \<open>last_time\<close> of 99.7 s: in the first run the second and the third call wait, in the
  second run all three do.
\<close>

lemma usage_loop_example:
  "fst (usage_loop (PyInt 60) (Suc (Suc (Suc 0))) (PyInt 0) w100) =
     Inr [1001 / 10, 508 / 5, 513 / 5]"
  "fst (usage_loop (PyInt 60) (Suc (Suc (Suc 0))) (PyFloat (997 / 10)) w100) =
     Inr [101, 102, 103]"
  by (simp_all add: rate_limit_def min_interval_ok to_float_ok float_ok_examples
      time_time_def time_sleep_def elapse_def w100_def)

text \<open>
  C4, as stated, fails on the code. With the positive int ceiling \<open>2^1024\<close> the first
  call raises \<open>OverflowError\<close> and the loop yields no timestamp. And with the ceiling
  60 and a clock at 100 s that is set back 50 s after the second call has read it, the
  two calls return 100 s and 51 s: they are not 1 s apart, and the loop has taken less
  than 1 s on that clock.
\<close>

theorem usage_loop_spacing_fails:
  "fst (usage_loop (PyInt (2 ^ 1024)) (Suc 0) (PyInt 0) w100) = Inl OverflowError \<and>
   fst (usage_loop (PyInt 60) (Suc (Suc 0)) (PyInt 0) wback3) = Inr [100, 51] \<and>
   \<not> spaced (60 / 60) [100, 51]"
proof -
  have "rate_limit (PyInt (2 ^ 1024)) (PyInt 0) w100 = (Inl OverflowError, w100)"
    by (rule rate_limit_bad_ceiling) (rule not_float_ok_big)
  then have "fst (usage_loop (PyInt (2 ^ 1024)) (Suc 0) (PyInt 0) w100) = Inl OverflowError"
    by (simp only: usage_loop.simps prod.case sum.case fst_conv)
  moreover have "fst (usage_loop (PyInt 60) (Suc (Suc 0)) (PyInt 0) wback3) = Inr [100, 51]"
    by (simp add: rate_limit_def min_interval_ok to_float_ok float_ok_examples time_time_def
        time_sleep_def elapse_def wback3_def)
  moreover have "\<not> spaced (60 / 60) [100, 51]" by simp
  ultimately show ?thesis by blast
qed

text \<open>
  C4 (amended): for every positive ceiling \<open>R\<close> that converts to a float and whose
  interval \<open>60 / R\<close> is a wait that \<open>time.sleep\<close> accepts, every \<open>N \<ge> 1\<close>, and a
  starting \<open>last_request_time\<close> that converts to a float and whose wait, if the first
  call needs one, \<open>time.sleep\<close> accepts: on a clock that does not run backwards the loop
  that feeds each call's return value back as the next call's \<open>last_request_time\<close>
  completes without an error and returns \<open>N\<close> timestamps of which successive ones are
  at least \<open>60 / R\<close> seconds apart; the last one lies at least \<open>(N - 1) * 60 / R\<close>
  seconds after the first, and so does the clock at the end of the loop after the clock
  at its start.
\<close>

theorem usage_loop_spacing:
  assumes "0 < num_value R" and "float_ok R" and "float_ok t0" and "1 \<le> N"
    and "lags_ok w" and "fits_sleep w (60 / num_value R)"
    and "clock w - num_value t0 < 60 / num_value R \<longrightarrow>
           fits_sleep w (60 / num_value R - (clock w - num_value t0))"
  shows "\<exists>ts. fst (usage_loop R N t0 w) = Inr ts \<and> length ts = N \<and>
           spaced (60 / num_value R) ts \<and>
           hd ts + real (N - 1) * (60 / num_value R) \<le> last ts \<and>
           clock w + real (N - 1) * (60 / num_value R) \<le> clock (snd (usage_loop R N t0 w))"
proof -
  let ?d = "60 / num_value R"
  obtain ts w' where r: "usage_loop R N t0 w = (Inr ts, w')" "length ts = N" "spaced ?d ts"
      "ts \<noteq> [] \<longrightarrow> num_value t0 + ?d \<le> hd ts \<and> clock w \<le> hd ts \<and>
         hd ts + real (N - 1) * ?d \<le> last ts \<and> last ts \<le> clock w'"
    using usage_loop_inv [OF assms(1,2,3,5,6,7), of N] by blast
  have ne: "ts \<noteq> []" using r(2) assms(4) by auto
  have b: "clock w \<le> hd ts" "hd ts + real (N - 1) * ?d \<le> last ts" "last ts \<le> clock w'"
    using r(4) ne by simp_all
  have "clock w + real (N - 1) * ?d \<le> clock w'"
    using b by linarith
  then show ?thesis using r(1,2,3) b(2) by simp
qed

theorem usage_loop_spacing_witness:
  "0 < num_value (PyInt 60) \<and> float_ok (PyInt 60) \<and> float_ok (PyFloat (997 / 10)) \<and>
   (1::nat) \<le> 3 \<and> lags_ok w100 \<and> fits_sleep w100 (60 / num_value (PyInt 60)) \<and>
   clock w100 - num_value (PyFloat (997 / 10)) < 60 / num_value (PyInt 60) \<and>
   fits_sleep w100 (60 / num_value (PyInt 60) - (clock w100 - num_value (PyFloat (997 / 10)))) \<and>
   (\<exists>ts. fst (usage_loop (PyInt 60) 3 (PyFloat (997 / 10)) w100) = Inr ts \<and> length ts = 3 \<and>
      spaced (60 / num_value (PyInt 60)) ts \<and>
      hd ts + real (3 - 1) * (60 / num_value (PyInt 60)) \<le> last ts \<and>
      clock w100 + real (3 - 1) * (60 / num_value (PyInt 60))
        \<le> clock (snd (usage_loop (PyInt 60) 3 (PyFloat (997 / 10)) w100)))"
proof -
  have p: "0 < num_value (PyInt 60)" by simp
  have n: "(1::nat) \<le> 3" by simp
  have f: "fits_sleep w100 (60 / num_value (PyInt 60))"
    by (simp add: fits_sleep_def w100_def)
  have c: "clock w100 - num_value (PyFloat (997 / 10)) < 60 / num_value (PyInt 60)"
    by (simp add: w100_def)
  have g: "fits_sleep w100
      (60 / num_value (PyInt 60) - (clock w100 - num_value (PyFloat (997 / 10))))"
    by (simp add: fits_sleep_def w100_def)
  then have i: "clock w100 - num_value (PyFloat (997 / 10)) < 60 / num_value (PyInt 60) \<longrightarrow>
      fits_sleep w100 (60 / num_value (PyInt 60) - (clock w100 - num_value (PyFloat (997 / 10))))"
    by blast
  show ?thesis
    using usage_loop_spacing [OF p float_ok_examples(3) float_ok_float n w100_lags_ok f i]
      p n f c g float_ok_examples(3) float_ok_float w100_lags_ok
    by blast
qed

end
